theory Spec2Isabelle
  imports Main "HOL-Library.AList"
begin

section \<open>Python values, errors\<close>

text \<open>
  The values a caller can pass as \<open>callback\<close>: \<open>None\<close>, a callable object, or any other
  object. An object is identified by its \<open>repr()\<close>, which is all that
  \<open>Client.subscribe\<close> reads of a non-callable one.
\<close>

datatype pyval = PyNone | PyCallable string | PyObject string

fun callable :: "pyval \<Rightarrow> bool" where
  "callable (PyCallable r) = True"
| "callable PyNone = False"
| "callable (PyObject r) = False"

fun repr :: "pyval \<Rightarrow> string" where
  "repr PyNone = ''None''"
| "repr (PyCallable r) = r"
| "repr (PyObject r) = r"

text \<open>
  Exceptions as values. \<open>TypeError\<close> carries its message. \<open>AlreadyOpen\<close> is
  the error of a second \<open>open\<close>; \<open>NoSuchObject\<close> is the store's answer to a
  reference that was never allocated (no Python program can build one).
\<close>

datatype error = TypeError string | AlreadyOpen | NoSuchObject

section \<open>types.FlowControl\<close>

text \<open>
  Modelled from the spec: \<open>types.FlowControl\<close> is imported by client.py but defined
  outside it. The spec gives the budget two integer fields, in this order, with defaults:
  maxOutstandingMessages (default 1000) and maxOutstandingBytes (default 100MB, 0 meaning
  unlimited).
\<close>

record FlowControl =
  max_messages :: int
  max_bytes :: int

definition FlowControl_defaults :: FlowControl where
  "FlowControl_defaults = \<lparr>max_messages = 1000, max_bytes = 100 * 1024 * 1024\<rparr>"

text \<open>
  Modelled from the spec: \<open>types.FlowControl(*flow_control)\<close>. The argument tuple is
  unpacked into positional arguments; a field that gets none keeps its default, and more
  positional arguments than fields is Python's \<open>TypeError\<close>. Unpacking a
  \<open>FlowControl\<close> value gives its two fields back.
\<close>

fun FlowControl_new :: "int list \<Rightarrow> error + FlowControl" where
  "FlowControl_new [] = Inr FlowControl_defaults"
| "FlowControl_new [m] = Inr (FlowControl_defaults\<lparr>max_messages := m\<rparr>)"
| "FlowControl_new [m, b] = Inr \<lparr>max_messages = m, max_bytes = b\<rparr>"
| "FlowControl_new (m # b # x # xs) = Inl (TypeError ''FlowControl() takes at most 2 arguments'')"

section \<open>The client\<close>

text \<open>
  Objects that travel through \<open>**kwargs\<close>: an opaque caller object (credentials, a
  caller-built channel, ...), the result of \<open>grpc.insecure_channel(target)\<close>, or the
  result of \<open>grpc_helpers.create_channel(credentials, target, scopes, options)\<close>.
\<close>

datatype pyobj =
    Obj string
  | Insecure_channel string
  | Created_channel "pyobj option" string "string list" "(string \<times> int) list"

type_synonym kwargs = "(string \<times> pyobj) list"

text \<open>The two library calls that make a channel, as \<open>Client.__init__\<close> issues them.\<close>

datatype grpc_call =
    Call_insecure_channel string
  | Call_create_channel "pyobj option" string "string list" "(string \<times> int) list"

text \<open>
  The class attributes of \<open>subscriber_client.SubscriberClient\<close> that client.py reads.
  The class is defined outside client.py, so its constants are parameters.
\<close>

record gapic_class =
  SERVICE_ADDRESS :: string
  DEFAULT_SCOPES :: "string list"

datatype policy_class = Thread_Policy | Custom_Policy string

text \<open>
  \<open>self._api\<close> is \<open>SubscriberClient(**kwargs)\<close>: the model keeps the keyword arguments
  it was built from.
\<close>

record Client =
  api :: kwargs
  policy_class :: policy_class

definition target :: "gapic_class \<Rightarrow> 'self \<Rightarrow> string" where
  "target g self = SERVICE_ADDRESS g"

definition channel_options :: "(string \<times> int) list" where
  "channel_options =
     [(''grpc.max_send_message_length'', -1),
      (''grpc.max_receive_message_length'', -1),
      (''grpc.keepalive_time_ms'', 30000)]"

text \<open>
  \<open>Client.__init__(self, policy_class, **kwargs)\<close> under the process environment
  \<open>environ\<close>. \<open>os.environ.get(k)\<close> is \<open>environ k\<close>; Python's truth test on it fails
  for \<open>None\<close> and for the empty string. \<open>self.target\<close> is read while \<open>self\<close> has no
  attribute yet, so the receiver is passed as \<open>()\<close>. The result is the client and the
  channel-making calls in the order they were issued.
\<close>

definition Client_init ::
  "gapic_class \<Rightarrow> (string \<rightharpoonup> string) \<Rightarrow> policy_class \<Rightarrow> kwargs \<Rightarrow> Client \<times> grpc_call list" where
  "Client_init g environ pclass kwargs =
     (let (kwargs1, calls1) =
            (case environ ''PUBSUB_EMULATOR_HOST'' of
               None \<Rightarrow> (kwargs, [])
             | Some host \<Rightarrow>
                 if host \<noteq> []
                 then (AList.update ''channel'' (Insecure_channel host) kwargs,
                       [Call_insecure_channel host])
                 else (kwargs, []));
          (kwargs2, calls2) =
            (if map_of kwargs1 ''channel'' = None
             then (let credentials = map_of kwargs1 ''credentials'';
                       kwargs' = AList.delete ''credentials'' kwargs1
                   in (AList.update ''channel''
                         (Created_channel credentials (target g ()) (DEFAULT_SCOPES g)
                            channel_options) kwargs',
                       calls1 @ [Call_create_channel credentials (target g ())
                                   (DEFAULT_SCOPES g) channel_options]))
             else (kwargs1, calls1))
      in (\<lparr>api = kwargs2, policy_class = pclass\<rparr>, calls2))"

section \<open>The object store\<close>

text \<open>
  Modelled from the spec: the policy class (by default \<open>thread.Policy\<close>) is defined
  outside client.py. Its constructor keeps its three arguments; the object is unopened
  until \<open>open(callback)\<close> records the callback.
\<close>

record Policy =
  p_class :: policy_class
  p_client :: Client
  p_subscription :: string
  p_flow_control :: FlowControl
  p_callback :: "pyval option"

datatype StreamState = Idle | Connecting | Active | Draining | Closed | Failed

text \<open>
  Modelled from the spec: \<open>StreamingPullManager\<close> is defined outside client.py. It is
  built from (client, subscription, flow_control); its stream is \<open>Idle\<close> until \<open>open\<close>.
\<close>

record Manager =
  m_client :: Client
  m_subscription :: string
  m_flow_control :: FlowControl
  m_callback :: "pyval option"
  m_stream :: StreamState

text \<open>\<open>futures.StreamingPullFuture(manager)\<close> holds a reference to the manager.\<close>

record Future =
  f_manager :: nat

text \<open>What the client does to its collaborators, in order.\<close>

datatype call =
    New_Policy nat
  | Open_Policy nat pyval
  | New_Manager nat
  | New_Future nat
  | Open_Manager nat pyval
  | Build_components nat
  | Start_stream nat

text \<open>
  Policies and managers are mutable objects: they live in a store, addressed by their
  index, and a new object is appended.
\<close>

record World =
  policies :: "Policy list"
  managers :: "Manager list"
  calls :: "call list"

text \<open>
  Modelled from the spec: the policy constructor, \<open>policy_class(client, subscription,
  flow_control)\<close>. The new object is unopened, as the docstring of \<open>Client.subscribe\<close>
  says of the object it returns when no callback is given.
\<close>

definition Policy_new ::
  "policy_class \<Rightarrow> Client \<Rightarrow> string \<Rightarrow> FlowControl \<Rightarrow> World \<Rightarrow> nat \<times> World" where
  "Policy_new cls client subscription flow_control w =
     (let r = length (policies w)
      in (r, w\<lparr>policies := policies w @
                  [\<lparr>p_class = cls, p_client = client, p_subscription = subscription,
                    p_flow_control = flow_control, p_callback = None\<rparr>],
                calls := calls w @ [New_Policy r]\<rparr>))"

text \<open>
  Modelled from the spec: \<open>open(callback)\<close> of the policy. The call is recorded and the
  callback kept; an object that is already open refuses a second \<open>open\<close>, as the spec
  says of its manager.
\<close>

definition Policy_open :: "nat \<Rightarrow> pyval \<Rightarrow> World \<Rightarrow> (error + unit) \<times> World" where
  "Policy_open r callback w =
     (let w1 = w\<lparr>calls := calls w @ [Open_Policy r callback]\<rparr>
      in if length (policies w) \<le> r then (Inl NoSuchObject, w1)
         else (case p_callback (policies w ! r) of
                 Some cb \<Rightarrow> (Inl AlreadyOpen, w1)
               | None \<Rightarrow>
                   (Inr (), w1\<lparr>policies :=
                                 (policies w)[r := (policies w ! r)\<lparr>p_callback := Some callback\<rparr>]\<rparr>)))"

section \<open>Client.subscribe\<close>

definition not_callable_message :: "pyval \<Rightarrow> string" where
  "not_callable_message callback = repr callback @ '' is not callable, please check input''"

text \<open>
  \<open>Client.subscribe(self, subscription, callback=None, flow_control=())\<close>. The result
  is the raised exception or the reference to the policy object, with the store after the
  call.
\<close>

definition subscribe ::
  "Client \<Rightarrow> string \<Rightarrow> pyval \<Rightarrow> int list \<Rightarrow> World \<Rightarrow> (error + nat) \<times> World" where
  "subscribe self subscription callback flow_control w =
     (case FlowControl_new flow_control of
        Inl e \<Rightarrow> (Inl e, w)
      | Inr fc \<Rightarrow>
          (let (subscr, w1) = Policy_new (policy_class self) self subscription fc w
           in if callable callback then
                (case Policy_open subscr callback w1 of
                   (Inl e, w2) \<Rightarrow> (Inl e, w2)
                 | (Inr u, w2) \<Rightarrow> (Inr subscr, w2))
              else if callback \<noteq> PyNone then
                (Inl (TypeError (not_callable_message callback)), w1)
              else (Inr subscr, w1)))"

section \<open>Client.subscribe_experimental\<close>

text \<open>
  Modelled from the spec: the constructor \<open>StreamingPullManager(client, subscription,
  flow_control)\<close>; the new manager has no callback and an \<open>Idle\<close> stream.
\<close>

definition Manager_new :: "Client \<Rightarrow> string \<Rightarrow> FlowControl \<Rightarrow> World \<Rightarrow> nat \<times> World" where
  "Manager_new client subscription flow_control w =
     (let r = length (managers w)
      in (r, w\<lparr>managers := managers w @
                  [\<lparr>m_client = client, m_subscription = subscription,
                    m_flow_control = flow_control, m_callback = None, m_stream = Idle\<rparr>],
                calls := calls w @ [New_Manager r]\<rparr>))"

text \<open>
  Modelled from the spec: the constructor \<open>StreamingPullFuture(manager)\<close>, the handle
  on the running manager. It keeps the reference it is given.
\<close>

definition Future_new :: "nat \<Rightarrow> World \<Rightarrow> Future \<times> World" where
  "Future_new manager w = (\<lparr>f_manager = manager\<rparr>, w\<lparr>calls := calls w @ [New_Future manager]\<rparr>)"

text \<open>
  Modelled from the spec: \<open>StreamingPullManager.open(callback)\<close>, which is defined outside
  client.py. It keeps the callback, constructs the components and starts the stream
  supervisor (\<open>Idle\<close> to \<open>Connecting\<close>); a second call on the same manager fails with
  AlreadyOpen. The callback is kept as it is given: \<open>open\<close> makes no test on it.
\<close>

definition Manager_open :: "nat \<Rightarrow> pyval \<Rightarrow> World \<Rightarrow> (error + unit) \<times> World" where
  "Manager_open r callback w =
     (let w1 = w\<lparr>calls := calls w @ [Open_Manager r callback]\<rparr>
      in if length (managers w) \<le> r then (Inl NoSuchObject, w1)
         else if m_stream (managers w ! r) \<noteq> Idle then (Inl AlreadyOpen, w1)
         else (Inr (),
               w1\<lparr>managers :=
                     (managers w)[r := (managers w ! r)\<lparr>m_callback := Some callback,
                                                        m_stream := Connecting\<rparr>],
                   calls := calls w1 @ [Build_components r, Start_stream r]\<rparr>))"

text \<open>
  \<open>Client.subscribe_experimental(self, subscription, callback, flow_control=(),
  scheduler_=None)\<close>. The body never reads \<open>scheduler_\<close> (here \<open>scheduler\<close>).
\<close>

definition subscribe_experimental ::
  "Client \<Rightarrow> string \<Rightarrow> pyval \<Rightarrow> int list \<Rightarrow> pyval \<Rightarrow> World \<Rightarrow> (error + Future) \<times> World" where
  "subscribe_experimental self subscription callback flow_control scheduler w =
     (case FlowControl_new flow_control of
        Inl e \<Rightarrow> (Inl e, w)
      | Inr fc \<Rightarrow>
          (let (manager, w1) = Manager_new self subscription fc w;
               (future, w2) = Future_new manager w1
           in case Manager_open manager callback w2 of
                (Inl e, w3) \<Rightarrow> (Inl e, w3)
              | (Inr u, w3) \<Rightarrow> (Inr future, w3)))"

text \<open>Inputs for the worked examples: a client built with no environment and no keyword
  argument, and the empty store.\<close>

definition example_gapic :: gapic_class where
  "example_gapic = \<lparr>SERVICE_ADDRESS = ''pubsub.googleapis.com:443'',
                    DEFAULT_SCOPES = [''https://www.googleapis.com/auth/pubsub'']\<rparr>"

definition example_client :: Client where
  "example_client = fst (Client_init example_gapic Map.empty Thread_Policy [])"

definition empty_World :: World where
  "empty_World = \<lparr>policies = [], managers = [], calls = []\<rparr>"

section \<open>FlowControlLimiter\<close>

text \<open>
  Modelled from the spec: the manager and its components are defined outside client.py.
  Of a received message flow control reads the delivery id and the size of the payload.
\<close>

record Message =
  delivery_id :: string
  data :: "nat list"

definition byte_size :: "Message \<Rightarrow> int" where
  "byte_size m = int (length (data m))"

text \<open>
  Modelled from the spec: the limiter's state is the outstanding message count and byte
  total, and whether the manager is shutting down. The budget is the \<open>FlowControl\<close>
  value.
\<close>

record Limiter =
  outstanding_count :: int
  outstanding_bytes :: int
  shutting_down :: bool

definition Limiter_new :: Limiter where
  "Limiter_new = \<lparr>outstanding_count = 0, outstanding_bytes = 0, shutting_down = False\<rparr>"

datatype admission = Admitted | Blocked | Refused | Too_large

text \<open>
  Modelled from the spec: both budgets have headroom for the message; a byte budget of 0
  is no cap.
\<close>

definition headroom :: "FlowControl \<Rightarrow> Limiter \<Rightarrow> Message \<Rightarrow> bool" where
  "headroom b s m \<longleftrightarrow>
     outstanding_count s + 1 \<le> max_messages b
     \<and> (max_bytes b = 0 \<or> outstanding_bytes s + byte_size m \<le> max_bytes b)"

text \<open>
  Modelled from the spec: \<open>admit(message)\<close>. While shutting down, every admit is refused
  (the \<open>false\<close> answer). A message larger than the byte cap is never admitted and is
  answered at once. With headroom the capacity is reserved; without, the caller is
  suspended and nothing is reserved: \<open>Blocked\<close> leaves the state as it was, and the
  caller's next attempt is a later call.
\<close>

definition admit :: "FlowControl \<Rightarrow> Limiter \<Rightarrow> Message \<Rightarrow> admission \<times> Limiter" where
  "admit b s m =
     (if shutting_down s then (Refused, s)
      else if max_bytes b \<noteq> 0 \<and> max_bytes b < byte_size m then (Too_large, s)
      else if headroom b s m then
        (Admitted, s\<lparr>outstanding_count := outstanding_count s + 1,
                     outstanding_bytes := outstanding_bytes s + byte_size m\<rparr>)
      else (Blocked, s))"

text \<open>
  Modelled from the spec: \<open>release(message)\<close> gives the message's capacity back. The
  spec has the tracked count and bytes never negative, so the counters stop at zero when a
  message is released twice or was never admitted.
\<close>

definition release :: "Limiter \<Rightarrow> Message \<Rightarrow> Limiter" where
  "release s m = s\<lparr>outstanding_count := max 0 (outstanding_count s - 1),
                   outstanding_bytes := max 0 (outstanding_bytes s - byte_size m)\<rparr>"

datatype limiter_call = Admit Message | Release Message | Shut_down

fun limiter_step :: "FlowControl \<Rightarrow> Limiter \<Rightarrow> limiter_call \<Rightarrow> Limiter" where
  "limiter_step b s (Admit m) = snd (admit b s m)"
| "limiter_step b s (Release m) = release s m"
| "limiter_step b s Shut_down = s\<lparr>shutting_down := True\<rparr>"

text \<open>Every state the limiter passes through under a sequence of calls, the first included.\<close>

fun limiter_states :: "FlowControl \<Rightarrow> Limiter \<Rightarrow> limiter_call list \<Rightarrow> Limiter list" where
  "limiter_states b s [] = [s]"
| "limiter_states b s (c # cs) = s # limiter_states b (limiter_step b s c) cs"

text \<open>
  The limiter's invariant: the counters are within the budget (a byte limit of 0 is no
  limit) and not negative.
\<close>

definition within_budget :: "FlowControl \<Rightarrow> Limiter \<Rightarrow> bool" where
  "within_budget b s \<longleftrightarrow>
     outstanding_count s \<le> max_messages b
     \<and> (max_bytes b = 0 \<or> outstanding_bytes s \<le> max_bytes b)
     \<and> 0 \<le> outstanding_count s
     \<and> 0 \<le> outstanding_bytes s"

section \<open>Properties of Client.subscribe\<close>

lemma FlowControl_new_ok:
  "length flow_control \<le> 2 \<Longrightarrow> \<exists>fc. FlowControl_new flow_control = Inr fc"
  by (cases flow_control rule: FlowControl_new.cases) simp_all

lemma Policy_open_fresh:
  "Policy_open (length (policies w)) callback
     (snd (Policy_new cls client subscription fc w)) =
   (Inr (),
    w\<lparr>policies := policies w @
         [\<lparr>p_class = cls, p_client = client, p_subscription = subscription,
           p_flow_control = fc, p_callback = Some callback\<rparr>],
       calls := calls w @ [New_Policy (length (policies w)),
                           Open_Policy (length (policies w)) callback]\<rparr>)"
  by (simp add: Policy_open_def Policy_new_def Let_def nth_append)

lemma subscribe_callable:
  "FlowControl_new flow_control = Inr fc \<Longrightarrow> callable callback \<Longrightarrow>
   subscribe self subscription callback flow_control w =
     (Inr (length (policies w)),
      w\<lparr>policies := policies w @
           [\<lparr>p_class = policy_class self, p_client = self, p_subscription = subscription,
             p_flow_control = fc, p_callback = Some callback\<rparr>],
         calls := calls w @ [New_Policy (length (policies w)),
                             Open_Policy (length (policies w)) callback]\<rparr>)"
  using Policy_open_fresh [of w callback "policy_class self" self subscription fc]
  by (simp add: subscribe_def Policy_new_def Let_def)

lemma subscribe_not_callable:
  "FlowControl_new flow_control = Inr fc \<Longrightarrow> \<not> callable callback \<Longrightarrow>
   subscribe self subscription callback flow_control w =
     ((if callback \<noteq> PyNone then Inl (TypeError (not_callable_message callback))
       else Inr (length (policies w))),
      w\<lparr>policies := policies w @
           [\<lparr>p_class = policy_class self, p_client = self, p_subscription = subscription,
             p_flow_control = fc, p_callback = None\<rparr>],
         calls := calls w @ [New_Policy (length (policies w))]\<rparr>)"
  by (simp add: subscribe_def Policy_new_def Let_def)

lemma subscribe_experimental_eq:
  "FlowControl_new flow_control = Inr fc \<Longrightarrow>
   subscribe_experimental self subscription callback flow_control scheduler w =
     (Inr \<lparr>f_manager = length (managers w)\<rparr>,
      w\<lparr>managers := managers w @
           [\<lparr>m_client = self, m_subscription = subscription, m_flow_control = fc,
             m_callback = Some callback, m_stream = Connecting\<rparr>],
         calls := calls w @ [New_Manager (length (managers w)), New_Future (length (managers w)),
                             Open_Manager (length (managers w)) callback,
                             Build_components (length (managers w)),
                             Start_stream (length (managers w))]\<rparr>)"
  by (simp add: subscribe_experimental_def Manager_new_def Future_new_def Manager_open_def
        Let_def nth_append)

text \<open>
  C1. For a well-formed flow-control tuple (no more values than \<open>FlowControl\<close> has
  fields), \<open>Client.subscribe\<close> raises a \<open>TypeError\<close> if and only if the callback is
  neither \<open>None\<close> nor callable. In that case the message names the offending value, the
  only thing done to the store is the construction of the policy object, and that object
  is left unopened: \<open>open\<close> is not called.
\<close>

theorem subscribe_TypeError_iff_not_callable:
  assumes "length flow_control \<le> 2"
  shows "((\<exists>msg. fst (subscribe self subscription callback flow_control w) = Inl (TypeError msg))
            \<longleftrightarrow> (callback \<noteq> PyNone \<and> \<not> callable callback))
       \<and> (callback \<noteq> PyNone \<and> \<not> callable callback \<longrightarrow>
            fst (subscribe self subscription callback flow_control w)
              = Inl (TypeError (repr callback @ '' is not callable, please check input''))
          \<and> calls (snd (subscribe self subscription callback flow_control w))
              = calls w @ [New_Policy (length (policies w))]
          \<and> p_callback (policies (snd (subscribe self subscription callback flow_control w))
                          ! length (policies w)) = None)"
proof -
  from assms obtain fc where fc: "FlowControl_new flow_control = Inr fc"
    using FlowControl_new_ok by blast
  show ?thesis
  proof (cases "callable callback")
    case True
    then have "callback \<noteq> PyNone" by auto
    with True show ?thesis by (simp add: subscribe_callable [OF fc True])
  next
    case False
    then show ?thesis
      by (simp add: subscribe_not_callable [OF fc False] not_callable_message_def)
  qed
qed

theorem subscribe_TypeError_iff_not_callable_witness:
  "length ([] :: int list) \<le> 2
   \<and> fst (subscribe example_client ''projects/p/subscriptions/s'' (PyObject ''42'') [] empty_World)
       = Inl (TypeError ''42 is not callable, please check input'')
   \<and> calls (snd (subscribe example_client ''projects/p/subscriptions/s'' (PyObject ''42'') []
              empty_World)) = [New_Policy 0]"
  using subscribe_TypeError_iff_not_callable
          [of "[]" example_client "''projects/p/subscriptions/s''" "PyObject ''42''" empty_World]
  by (simp add: empty_World_def)

text \<open>
  C8. \<open>Client.subscribe\<close> with \<open>callback = None\<close> and a well-formed flow-control tuple
  does not raise. It constructs one policy object, of the client's policy class, from
  (the client, the subscription name, the \<open>FlowControl\<close> made of the tuple), and returns
  the reference to it; nothing else in the store changes, the construction is the only
  call it makes, the object is unopened, and a later \<open>open\<close> on it with a callback
  succeeds.
\<close>

theorem subscribe_None_returns_unopened:
  assumes "length flow_control \<le> 2"
  shows "(\<exists>fc. FlowControl_new flow_control = Inr fc
            \<and> subscribe self subscription PyNone flow_control w
                = (Inr (length (policies w)),
                   w\<lparr>policies := policies w @
                        [\<lparr>p_class = policy_class self, p_client = self,
                          p_subscription = subscription, p_flow_control = fc,
                          p_callback = None\<rparr>],
                      calls := calls w @ [New_Policy (length (policies w))]\<rparr>))
       \<and> fst (subscribe self subscription PyNone flow_control w) = Inr (length (policies w))
       \<and> calls (snd (subscribe self subscription PyNone flow_control w))
           = calls w @ [New_Policy (length (policies w))]
       \<and> p_callback (policies (snd (subscribe self subscription PyNone flow_control w))
                       ! length (policies w)) = None
       \<and> fst (Policy_open (length (policies w)) cb
                (snd (subscribe self subscription PyNone flow_control w))) = Inr ()"
proof -
  from assms obtain fc where fc: "FlowControl_new flow_control = Inr fc"
    using FlowControl_new_ok by blast
  have nc: "\<not> callable PyNone" by simp
  have eq: "subscribe self subscription PyNone flow_control w
                = (Inr (length (policies w)),
                   w\<lparr>policies := policies w @
                        [\<lparr>p_class = policy_class self, p_client = self,
                          p_subscription = subscription, p_flow_control = fc,
                          p_callback = None\<rparr>],
                      calls := calls w @ [New_Policy (length (policies w))]\<rparr>)"
    by (simp add: subscribe_not_callable [OF fc nc])
  have rest: "fst (subscribe self subscription PyNone flow_control w) = Inr (length (policies w))
       \<and> calls (snd (subscribe self subscription PyNone flow_control w))
           = calls w @ [New_Policy (length (policies w))]
       \<and> p_callback (policies (snd (subscribe self subscription PyNone flow_control w))
                       ! length (policies w)) = None
       \<and> fst (Policy_open (length (policies w)) cb
                (snd (subscribe self subscription PyNone flow_control w))) = Inr ()"
    by (simp add: eq Policy_open_def Let_def nth_append)
  from fc eq have "\<exists>fc. FlowControl_new flow_control = Inr fc
            \<and> subscribe self subscription PyNone flow_control w
                = (Inr (length (policies w)),
                   w\<lparr>policies := policies w @
                        [\<lparr>p_class = policy_class self, p_client = self,
                          p_subscription = subscription, p_flow_control = fc,
                          p_callback = None\<rparr>],
                      calls := calls w @ [New_Policy (length (policies w))]\<rparr>)"
    by blast
  with rest show ?thesis by blast
qed

theorem subscribe_None_returns_unopened_witness:
  "length ([7, 0] :: int list) \<le> 2
   \<and> subscribe \<lparr>api = [], policy_class = Custom_Policy ''MyPolicy''\<rparr>
        ''projects/p/subscriptions/s'' PyNone [7, 0] empty_World
     = (Inr 0,
        \<lparr>policies = [\<lparr>p_class = Custom_Policy ''MyPolicy'',
                       p_client = \<lparr>api = [], policy_class = Custom_Policy ''MyPolicy''\<rparr>,
                       p_subscription = ''projects/p/subscriptions/s'',
                       p_flow_control = \<lparr>max_messages = 7, max_bytes = 0\<rparr>,
                       p_callback = None\<rparr>],
          managers = [], calls = [New_Policy 0]\<rparr>)"
  using subscribe_None_returns_unopened
          [of "[7, 0]" "\<lparr>api = [], policy_class = Custom_Policy ''MyPolicy''\<rparr>"
              "''projects/p/subscriptions/s''" empty_World]
  by (simp add: empty_World_def)

text \<open>
  C2, at the callback 42, which is not callable. \<open>Client.subscribe_experimental\<close> makes
  no test on the callback: it builds the manager and the future, calls \<open>open(42)\<close>, the
  components are built and the stream is started, and the future is returned. No error is
  raised and the manager is opened. \<open>Client.subscribe\<close> at the same callback raises its
  \<open>TypeError\<close> and opens nothing.
\<close>

theorem subscribe_experimental_opens_with_42:
  "\<not> callable (PyObject ''42'')
   \<and> subscribe_experimental example_client ''projects/p/subscriptions/s'' (PyObject ''42'')
        [] PyNone empty_World
     = (Inr \<lparr>f_manager = 0\<rparr>,
        \<lparr>policies = [],
          managers = [\<lparr>m_client = example_client,
                       m_subscription = ''projects/p/subscriptions/s'',
                       m_flow_control = FlowControl_defaults,
                       m_callback = Some (PyObject ''42''), m_stream = Connecting\<rparr>],
          calls = [New_Manager 0, New_Future 0, Open_Manager 0 (PyObject ''42''),
                   Build_components 0, Start_stream 0]\<rparr>)
   \<and> fst (subscribe example_client ''projects/p/subscriptions/s'' (PyObject ''42'') []
            empty_World) = Inl (TypeError ''42 is not callable, please check input'')
   \<and> calls (snd (subscribe example_client ''projects/p/subscriptions/s'' (PyObject ''42'') []
                   empty_World)) = [New_Policy 0]"
  by (simp add: subscribe_experimental_def Manager_new_def Future_new_def Manager_open_def
        subscribe_def Policy_new_def not_callable_message_def Let_def empty_World_def)

text \<open>
  C3. For every subscription name, every callback and every flow-control tuple that
  \<open>FlowControl\<close> accepts, \<open>Client.subscribe_experimental\<close> adds exactly one manager to
  the store, built from (client, subscription, flow_control), leaves every other object
  as it was, calls \<open>open(callback)\<close> on that manager exactly once, and returns the future
  that refers to this same manager, which is then open with that callback.
\<close>

theorem subscribe_experimental_one_manager_one_open:
  assumes "FlowControl_new flow_control = Inr fc"
  shows "fst (subscribe_experimental self subscription callback flow_control scheduler w)
           = Inr \<lparr>f_manager = length (managers w)\<rparr>
       \<and> managers (snd (subscribe_experimental self subscription callback flow_control
                          scheduler w))
           = managers w @ [\<lparr>m_client = self, m_subscription = subscription,
                             m_flow_control = fc, m_callback = Some callback,
                             m_stream = Connecting\<rparr>]
       \<and> policies (snd (subscribe_experimental self subscription callback flow_control
                          scheduler w)) = policies w
       \<and> calls (snd (subscribe_experimental self subscription callback flow_control scheduler w))
           = calls w @ [New_Manager (length (managers w)), New_Future (length (managers w)),
                        Open_Manager (length (managers w)) callback,
                        Build_components (length (managers w)),
                        Start_stream (length (managers w))]"
proof -
  have run: "subscribe_experimental self subscription callback flow_control scheduler w =
     (Inr \<lparr>f_manager = length (managers w)\<rparr>,
      w\<lparr>managers := managers w @
           [\<lparr>m_client = self, m_subscription = subscription, m_flow_control = fc,
             m_callback = Some callback, m_stream = Connecting\<rparr>],
         calls := calls w @ [New_Manager (length (managers w)), New_Future (length (managers w)),
                             Open_Manager (length (managers w)) callback,
                             Build_components (length (managers w)),
                             Start_stream (length (managers w))]\<rparr>)"
    using assms by (rule subscribe_experimental_eq)
  have "fst (subscribe_experimental self subscription callback flow_control scheduler w)
           = Inr \<lparr>f_manager = length (managers w)\<rparr>"
    by (simp add: run)
  moreover have "managers (snd (subscribe_experimental self subscription callback flow_control
                          scheduler w))
           = managers w @ [\<lparr>m_client = self, m_subscription = subscription,
                             m_flow_control = fc, m_callback = Some callback,
                             m_stream = Connecting\<rparr>]"
    by (simp add: run)
  moreover have "policies (snd (subscribe_experimental self subscription callback flow_control
                          scheduler w)) = policies w"
    by (simp add: run)
  moreover have "calls (snd (subscribe_experimental self subscription callback flow_control
                       scheduler w))
           = calls w @ [New_Manager (length (managers w)), New_Future (length (managers w)),
                        Open_Manager (length (managers w)) callback,
                        Build_components (length (managers w)),
                        Start_stream (length (managers w))]"
    by (simp add: run)
  ultimately show ?thesis by simp
qed

theorem subscribe_experimental_one_manager_one_open_witness:
  "FlowControl_new [5, 0] = Inr \<lparr>max_messages = 5, max_bytes = 0\<rparr>
   \<and> fst (subscribe_experimental example_client ''projects/p/subscriptions/s''
            (PyCallable ''handler'') [5, 0] PyNone empty_World) = Inr \<lparr>f_manager = 0\<rparr>
   \<and> managers (snd (subscribe_experimental example_client ''projects/p/subscriptions/s''
                      (PyCallable ''handler'') [5, 0] PyNone empty_World))
       = [\<lparr>m_client = example_client, m_subscription = ''projects/p/subscriptions/s'',
           m_flow_control = \<lparr>max_messages = 5, max_bytes = 0\<rparr>,
           m_callback = Some (PyCallable ''handler''), m_stream = Connecting\<rparr>]
   \<and> calls (snd (subscribe_experimental example_client ''projects/p/subscriptions/s''
                   (PyCallable ''handler'') [5, 0] PyNone empty_World))
       = [New_Manager 0, New_Future 0, Open_Manager 0 (PyCallable ''handler''),
          Build_components 0, Start_stream 0]"
  using subscribe_experimental_one_manager_one_open
          [of "[5, 0]" "\<lparr>max_messages = 5, max_bytes = 0\<rparr>" example_client
              "''projects/p/subscriptions/s''" "PyCallable ''handler''" PyNone empty_World]
  by (simp add: empty_World_def)

text \<open>
  C4. With the empty tuple as \<open>flow_control\<close>, the policy built by \<open>Client.subscribe\<close>
  and the manager built by \<open>Client.subscribe_experimental\<close> both get the default budget,
  whatever the callback; its message limit is at least 1 and its byte limit at least 0.
\<close>

theorem default_flow_control_budget:
  "p_flow_control (policies (snd (subscribe self subscription callback [] w))
                     ! length (policies w)) = FlowControl_defaults
   \<and> m_flow_control (managers (snd (subscribe_experimental self subscription callback []
                                      scheduler w)) ! length (managers w)) = FlowControl_defaults
   \<and> 1 \<le> max_messages FlowControl_defaults
   \<and> 0 \<le> max_bytes FlowControl_defaults"
proof -
  have fc: "FlowControl_new [] = Inr FlowControl_defaults" by simp
  have "p_flow_control (policies (snd (subscribe self subscription callback [] w))
                     ! length (policies w)) = FlowControl_defaults"
    by (cases "callable callback")
       (simp_all add: subscribe_callable [OF fc] subscribe_not_callable [OF fc])
  moreover have "m_flow_control (managers (snd (subscribe_experimental self subscription callback []
                                      scheduler w)) ! length (managers w)) = FlowControl_defaults"
    by (simp add: subscribe_experimental_eq [OF fc])
  moreover have "1 \<le> max_messages FlowControl_defaults \<and> 0 \<le> max_bytes FlowControl_defaults"
    by (simp add: FlowControl_defaults_def)
  ultimately show ?thesis by simp
qed

lemma Client_init_emulator:
  "environ ''PUBSUB_EMULATOR_HOST'' = Some host \<Longrightarrow> host \<noteq> [] \<Longrightarrow>
   Client_init g environ pclass kwargs =
     (\<lparr>api = AList.update ''channel'' (Insecure_channel host) kwargs, policy_class = pclass\<rparr>,
      [Call_insecure_channel host])"
  by (simp add: Client_init_def update_conv')

text \<open>
  C9, as stated, at a variable that is set to the empty string: the emulator branch is not
  taken, and the channel comes from \<open>create_channel\<close>.
\<close>

theorem Client_init_empty_emulator_host:
  "snd (Client_init example_gapic [''PUBSUB_EMULATOR_HOST'' \<mapsto> []] Thread_Policy [])
     = [Call_create_channel None ''pubsub.googleapis.com:443''
          [''https://www.googleapis.com/auth/pubsub'']
          [(''grpc.max_send_message_length'', -1), (''grpc.max_receive_message_length'', -1),
           (''grpc.keepalive_time_ms'', 30000)]]"
  by (simp add: Client_init_def example_gapic_def target_def channel_options_def)

text \<open>
  C9, amended. If \<open>PUBSUB_EMULATOR_HOST\<close> is set to a non-empty value when the client is
  constructed, the channel given to the gapic client is the insecure channel to that host,
  whatever the keyword arguments were (a caller's channel is replaced), and
  \<open>grpc.insecure_channel\<close> is the only channel-making call: \<open>create_channel\<close> is not
  called.
\<close>

theorem Client_init_emulator_insecure_channel:
  assumes "environ ''PUBSUB_EMULATOR_HOST'' = Some host" and "host \<noteq> []"
  shows "map_of (api (fst (Client_init g environ pclass kwargs))) ''channel''
           = Some (Insecure_channel host)
       \<and> snd (Client_init g environ pclass kwargs) = [Call_insecure_channel host]"
  using assms by (simp add: Client_init_emulator update_conv')

theorem Client_init_emulator_insecure_channel_witness:
  "[''PUBSUB_EMULATOR_HOST'' \<mapsto> ''localhost:8085''] ''PUBSUB_EMULATOR_HOST'' = Some ''localhost:8085''
   \<and> ''localhost:8085'' \<noteq> []
   \<and> map_of (api (fst (Client_init example_gapic [''PUBSUB_EMULATOR_HOST'' \<mapsto> ''localhost:8085'']
                         Thread_Policy [(''channel'', Obj ''my channel'')]))) ''channel''
       = Some (Insecure_channel ''localhost:8085'')
   \<and> snd (Client_init example_gapic [''PUBSUB_EMULATOR_HOST'' \<mapsto> ''localhost:8085'']
            Thread_Policy [(''channel'', Obj ''my channel'')])
       = [Call_insecure_channel ''localhost:8085'']"
  using Client_init_emulator_insecure_channel
          [of "[''PUBSUB_EMULATOR_HOST'' \<mapsto> ''localhost:8085'']" "''localhost:8085''"
              example_gapic Thread_Policy "[(''channel'', Obj ''my channel'')]"]
  by simp

text \<open>
  C10. \<open>Client.target\<close> is the gapic class's \<open>SERVICE_ADDRESS\<close> for every client, whatever
  the environment and the keyword arguments it was constructed with. So under a non-empty
  emulator host other than that address the client's channel goes to the emulator and
  \<open>target\<close> does not name it, and a caller's channel is kept while \<open>target\<close> is still
  the fixed address.
\<close>

theorem target_is_SERVICE_ADDRESS:
  "target g (fst (Client_init g environ pclass kwargs)) = SERVICE_ADDRESS g
   \<and> (environ ''PUBSUB_EMULATOR_HOST'' = Some host \<and> host \<noteq> [] \<and> host \<noteq> SERVICE_ADDRESS g \<longrightarrow>
        map_of (api (fst (Client_init g environ pclass kwargs))) ''channel''
          = Some (Insecure_channel host)
      \<and> target g (fst (Client_init g environ pclass kwargs)) \<noteq> host)
   \<and> (environ ''PUBSUB_EMULATOR_HOST'' = None \<and> map_of kwargs ''channel'' = Some ch \<longrightarrow>
        map_of (api (fst (Client_init g environ pclass kwargs))) ''channel'' = Some ch
      \<and> snd (Client_init g environ pclass kwargs) = [])"
proof -
  have "target g (fst (Client_init g environ pclass kwargs)) = SERVICE_ADDRESS g"
    by (simp add: target_def)
  moreover have "map_of (api (fst (Client_init g environ pclass kwargs))) ''channel''
          = Some (Insecure_channel host)
      \<and> target g (fst (Client_init g environ pclass kwargs)) \<noteq> host"
    if "environ ''PUBSUB_EMULATOR_HOST'' = Some host" "host \<noteq> []" "host \<noteq> SERVICE_ADDRESS g"
    using that by (simp add: Client_init_emulator update_conv' target_def)
  moreover have "map_of (api (fst (Client_init g environ pclass kwargs))) ''channel'' = Some ch
      \<and> snd (Client_init g environ pclass kwargs) = []"
    if "environ ''PUBSUB_EMULATOR_HOST'' = None" "map_of kwargs ''channel'' = Some ch"
    using that by (simp add: Client_init_def)
  ultimately show ?thesis by blast
qed

theorem target_is_SERVICE_ADDRESS_witness:
  "target example_gapic
     (fst (Client_init example_gapic [''PUBSUB_EMULATOR_HOST'' \<mapsto> ''localhost:8085'']
             Thread_Policy [])) = ''pubsub.googleapis.com:443''
   \<and> map_of (api (fst (Client_init example_gapic [''PUBSUB_EMULATOR_HOST'' \<mapsto> ''localhost:8085'']
                         Thread_Policy []))) ''channel'' = Some (Insecure_channel ''localhost:8085'')
   \<and> target example_gapic
       (fst (Client_init example_gapic [''PUBSUB_EMULATOR_HOST'' \<mapsto> ''localhost:8085'']
               Thread_Policy [])) \<noteq> ''localhost:8085''"
  using target_is_SERVICE_ADDRESS
          [of example_gapic "[''PUBSUB_EMULATOR_HOST'' \<mapsto> ''localhost:8085'']" Thread_Policy "[]"
              "''localhost:8085''"]
  by (simp add: example_gapic_def)

lemma byte_size_nonneg: "0 \<le> byte_size m"
  by (simp add: byte_size_def)

lemma within_budget_admit:
  "within_budget b s \<Longrightarrow> within_budget b (snd (admit b s m))"
  using byte_size_nonneg [of m]
  by (auto simp: within_budget_def admit_def headroom_def)

lemma within_budget_release:
  assumes "0 \<le> max_messages b" and "0 \<le> max_bytes b" and "within_budget b s"
  shows "within_budget b (release s m)"
proof -
  have "max 0 (outstanding_count s - 1) \<le> max_messages b"
    using assms(1,3) by (simp add: within_budget_def)
  moreover have "max_bytes b = 0 \<or> max 0 (outstanding_bytes s - byte_size m) \<le> max_bytes b"
    using assms(2,3) byte_size_nonneg [of m] by (auto simp: within_budget_def)
  ultimately show ?thesis by (simp add: within_budget_def release_def)
qed

lemma within_budget_step:
  assumes "0 \<le> max_messages b" and "0 \<le> max_bytes b" and "within_budget b s"
  shows "within_budget b (limiter_step b s c)"
proof (cases c)
  case (Admit m)
  with assms(3) show ?thesis by (simp add: within_budget_admit)
next
  case (Release m)
  with assms show ?thesis by (simp add: within_budget_release)
next
  case Shut_down
  with assms(3) show ?thesis by (simp add: within_budget_def)
qed

lemma within_budget_states:
  "0 \<le> max_messages b \<Longrightarrow> 0 \<le> max_bytes b \<Longrightarrow> within_budget b s \<Longrightarrow>
   s' \<in> set (limiter_states b s cs) \<Longrightarrow> within_budget b s'"
proof (induction cs arbitrary: s)
  case Nil
  then show ?case by simp
next
  case (Cons c cs)
  from Cons.prems(4) have "s' = s \<or> s' \<in> set (limiter_states b (limiter_step b s c) cs)"
    by simp
  then show ?case
  proof
    assume "s' = s"
    with Cons.prems(3) show ?thesis by simp
  next
    assume later: "s' \<in> set (limiter_states b (limiter_step b s c) cs)"
    have "within_budget b (limiter_step b s c)"
      using Cons.prems(1,2,3) by (rule within_budget_step)
    with Cons.IH [OF Cons.prems(1,2)] later show ?thesis by blast
  qed
qed

text \<open>
  C6. For a valid budget (message limit at least 1, byte limit at least 0) and every
  sequence of admit, release and shut-down calls on a new limiter, in every state the
  limiter passes through the outstanding count is at most the message limit, the
  outstanding bytes are at most the byte limit (a byte limit of 0 is no limit), and
  neither is negative.
\<close>

theorem limiter_counters_bounded:
  assumes "1 \<le> max_messages b" and "0 \<le> max_bytes b"
    and "s \<in> set (limiter_states b Limiter_new cs)"
  shows "outstanding_count s \<le> max_messages b
       \<and> (max_bytes b = 0 \<or> outstanding_bytes s \<le> max_bytes b)
       \<and> 0 \<le> outstanding_count s
       \<and> 0 \<le> outstanding_bytes s"
proof -
  from assms(1) have m0: "0 \<le> max_messages b" by simp
  from assms(1,2) have "within_budget b Limiter_new"
    by (simp add: within_budget_def Limiter_new_def)
  with m0 assms(2) have "within_budget b s"
    using assms(3) by (rule within_budget_states)
  then show ?thesis by (simp add: within_budget_def)
qed

theorem limiter_counters_bounded_witness:
  "1 \<le> max_messages \<lparr>max_messages = 1, max_bytes = 10\<rparr>
   \<and> 0 \<le> max_bytes \<lparr>max_messages = 1, max_bytes = 10\<rparr>
   \<and> limiter_states \<lparr>max_messages = 1, max_bytes = 10\<rparr> Limiter_new
        [Release \<lparr>delivery_id = ''d0'', data = [9]\<rparr>,
         Admit \<lparr>delivery_id = ''d1'', data = [1, 2, 3]\<rparr>,
         Admit \<lparr>delivery_id = ''d2'', data = [4, 5, 6, 7]\<rparr>,
         Release \<lparr>delivery_id = ''d1'', data = [1, 2, 3]\<rparr>,
         Admit \<lparr>delivery_id = ''d2'', data = [4, 5, 6, 7]\<rparr>]
     = [\<lparr>outstanding_count = 0, outstanding_bytes = 0, shutting_down = False\<rparr>,
        \<lparr>outstanding_count = 0, outstanding_bytes = 0, shutting_down = False\<rparr>,
        \<lparr>outstanding_count = 1, outstanding_bytes = 3, shutting_down = False\<rparr>,
        \<lparr>outstanding_count = 1, outstanding_bytes = 3, shutting_down = False\<rparr>,
        \<lparr>outstanding_count = 0, outstanding_bytes = 0, shutting_down = False\<rparr>,
        \<lparr>outstanding_count = 1, outstanding_bytes = 4, shutting_down = False\<rparr>]
   \<and> outstanding_count \<lparr>outstanding_count = 1, outstanding_bytes = 4, shutting_down = False\<rparr>
       \<le> max_messages \<lparr>max_messages = 1, max_bytes = 10\<rparr>
   \<and> outstanding_bytes \<lparr>outstanding_count = 1, outstanding_bytes = 4, shutting_down = False\<rparr>
       \<le> max_bytes \<lparr>max_messages = 1, max_bytes = 10\<rparr>"
proof -
  have st: "limiter_states \<lparr>max_messages = 1, max_bytes = 10\<rparr> Limiter_new
        [Release \<lparr>delivery_id = ''d0'', data = [9]\<rparr>,
         Admit \<lparr>delivery_id = ''d1'', data = [1, 2, 3]\<rparr>,
         Admit \<lparr>delivery_id = ''d2'', data = [4, 5, 6, 7]\<rparr>,
         Release \<lparr>delivery_id = ''d1'', data = [1, 2, 3]\<rparr>,
         Admit \<lparr>delivery_id = ''d2'', data = [4, 5, 6, 7]\<rparr>]
     = [\<lparr>outstanding_count = 0, outstanding_bytes = 0, shutting_down = False\<rparr>,
        \<lparr>outstanding_count = 0, outstanding_bytes = 0, shutting_down = False\<rparr>,
        \<lparr>outstanding_count = 1, outstanding_bytes = 3, shutting_down = False\<rparr>,
        \<lparr>outstanding_count = 1, outstanding_bytes = 3, shutting_down = False\<rparr>,
        \<lparr>outstanding_count = 0, outstanding_bytes = 0, shutting_down = False\<rparr>,
        \<lparr>outstanding_count = 1, outstanding_bytes = 4, shutting_down = False\<rparr>]"
    by (simp add: Limiter_new_def admit_def headroom_def release_def byte_size_def)
  have mem: "\<lparr>outstanding_count = 1, outstanding_bytes = 4, shutting_down = False\<rparr>
       \<in> set (limiter_states \<lparr>max_messages = 1, max_bytes = 10\<rparr> Limiter_new
                [Release \<lparr>delivery_id = ''d0'', data = [9]\<rparr>,
                 Admit \<lparr>delivery_id = ''d1'', data = [1, 2, 3]\<rparr>,
                 Admit \<lparr>delivery_id = ''d2'', data = [4, 5, 6, 7]\<rparr>,
                 Release \<lparr>delivery_id = ''d1'', data = [1, 2, 3]\<rparr>,
                 Admit \<lparr>delivery_id = ''d2'', data = [4, 5, 6, 7]\<rparr>])"
    unfolding st by simp
  have b1: "1 \<le> max_messages \<lparr>max_messages = 1, max_bytes = 10\<rparr>" by simp
  have b2: "0 \<le> max_bytes \<lparr>max_messages = 1, max_bytes = 10\<rparr>" by simp
  show ?thesis using limiter_counters_bounded [OF b1 b2 mem] unfolding st by simp
qed

end
